theory Spec2Isabelle
  imports Main
begin

section \<open>The JavaScript values the program handles\<close>

text \<open>
  The program (\<^verbatim>\<open>src/index.ts\<close>) reads a decoded spreadsheet: an object whose keys
  are cell addresses such as \<^verbatim>\<open>A1\<close> and whose values are strings or numbers.
  Modelling conventions:
  \<^item> strings are \<open>string\<close> (ASCII; \<open>length\<close> is the source's \<^verbatim>\<open>.length\<close>);
  \<^item> a number is \<open>NaN\<close>, an infinity or a decimal \<open>Dec m e\<close> standing for
    \<open>m \<times> 10\<^sup>e\<close>; arithmetic on decimals is exact (the rounding and the overflow of
    binary doubles are not modelled); a row number, the result of \<^verbatim>\<open>parseInt\<close>, is an
    \<open>int option\<close> with \<open>None\<close> for \<^verbatim>\<open>NaN\<close>, printed in plain decimal;
  \<^item> an object used as a dictionary is an association list in insertion order, read
    with \<open>objGet\<close> and written with \<open>objSet\<close> (an existing key keeps its place); the
    properties every object inherits from \<^verbatim>\<open>Object.prototype\<close> and the numeric
    ordering of integer-like keys are outside the model;
  \<^item> \<^verbatim>\<open>throw\<close> is the left summand of a sum type.
\<close>

datatype number = NaN | Inf bool | Dec int int

datatype cell = Str string | Num number

datatype jsvalue = Undefined | Cell cell | Strings "string list"

datatype error = Error string | TypeError

type_synonym 'v obj = "(string \<times> 'v) list"

type_synonym sheet = "cell obj"

type_synonym entry = "jsvalue obj"

fun objSet :: "string \<Rightarrow> 'v \<Rightarrow> 'v obj \<Rightarrow> 'v obj" where
  "objSet k v [] = [(k, v)]"
| "objSet k v (p # ps) = (if fst p = k then (k, v) # ps else p # objSet k v ps)"

definition objGet :: "'v obj \<Rightarrow> string \<Rightarrow> 'v option" where
  "objGet ob k = map_of ob k"

text \<open>\<^verbatim>\<open>file[cellIndex]\<close>: the cell's value, or \<^verbatim>\<open>undefined\<close>.\<close>

definition fileGet :: "sheet \<Rightarrow> string \<Rightarrow> jsvalue" where
  "fileGet f k = (case objGet f k of None \<Rightarrow> Undefined | Some c \<Rightarrow> Cell c)"

text \<open>\<^verbatim>\<open>entry[key]\<close> on a record.\<close>

definition entryGet :: "entry \<Rightarrow> string \<Rightarrow> jsvalue" where
  "entryGet en k = (case objGet en k of None \<Rightarrow> Undefined | Some v \<Rightarrow> v)"

subsection \<open>Characters and digits\<close>

definition isDigit :: "char \<Rightarrow> bool" where
  "isDigit c = (48 \<le> (of_char c :: nat) \<and> (of_char c :: nat) \<le> 57)"

definition digitVal :: "char \<Rightarrow> nat" where
  "digitVal c = of_char c - 48"

definition digitChar :: "nat \<Rightarrow> char" where
  "digitChar d = char_of (48 + d)"

text \<open>White space that \<^verbatim>\<open>parseInt\<close> and \<^verbatim>\<open>parseFloat\<close> skip (the ASCII part).\<close>

definition isWhite :: "char \<Rightarrow> bool" where
  "isWhite c = ((of_char c :: nat) = 32 \<or> (9 \<le> (of_char c :: nat) \<and> (of_char c :: nat) \<le> 13))"

definition digitsVal :: "string \<Rightarrow> nat" where
  "digitsVal ds = foldl (\<lambda>a c. 10 * a + digitVal c) 0 ds"

function natToString :: "nat \<Rightarrow> string" where
  "natToString n = (if n < 10 then [digitChar n] else natToString (n div 10) @ [digitChar (n mod 10)])"
  by pat_completeness auto
termination
  by (relation "measure id") auto

declare natToString.simps [simp del]

definition intToString :: "int \<Rightarrow> string" where
  "intToString i = (if i < 0 then CHR ''-'' # natToString (nat (- i)) else natToString (nat i))"

subsection \<open>Number to string\<close>

text \<open>
  \<^verbatim>\<open>Number::toString\<close> of ECMAScript: with \<open>k\<close> significant digits and the decimal point
  after the \<open>n\<close>-th of them, plain notation for \<open>-6 < n \<le> 21\<close>, exponent notation
  otherwise.
\<close>

function stripZeros :: "nat \<Rightarrow> int \<Rightarrow> nat \<times> int" where
  "stripZeros m e = (if m \<noteq> 0 \<and> m mod 10 = 0 then stripZeros (m div 10) (e + 1) else (m, e))"
  by pat_completeness auto
termination
  by (relation "measure fst") auto

declare stripZeros.simps [simp del]

definition decToString :: "nat \<Rightarrow> int \<Rightarrow> string" where
  "decToString m0 e0 =
     (let (m, e) = stripZeros m0 e0;
          ds = natToString m;
          k = int (length ds);
          n = k + e
      in if k \<le> n \<and> n \<le> 21 then ds @ replicate (nat (n - k)) CHR ''0''
         else if 0 < n \<and> n \<le> 21 then take (nat n) ds @ ''.'' @ drop (nat n) ds
         else if - 6 < n \<and> n \<le> 0 then ''0.'' @ replicate (nat (- n)) CHR ''0'' @ ds
         else (if k = 1 then ds else take 1 ds @ ''.'' @ drop 1 ds)
              @ ''e'' @ (if 0 \<le> n - 1 then ''+'' else ''-'') @ natToString (nat \<bar>n - 1\<bar>))"

fun numToString :: "number \<Rightarrow> string" where
  "numToString NaN = ''NaN''"
| "numToString (Inf pos) = (if pos then ''Infinity'' else ''-Infinity'')"
| "numToString (Dec m e) =
     (if m = 0 then ''0''
      else (if m < 0 then ''-'' else '''') @ decToString (nat \<bar>m\<bar>) e)"

text \<open>A row number as \<^verbatim>\<open>parseInt\<close> returns it: \<open>None\<close> is \<^verbatim>\<open>NaN\<close>.\<close>

definition rowToString :: "int option \<Rightarrow> string" where
  "rowToString r = (case r of None \<Rightarrow> ''NaN'' | Some i \<Rightarrow> intToString i)"

text \<open>\<^verbatim>\<open>Array.prototype.join\<close>, as used when an array becomes a string.\<close>

fun joinStrings :: "string \<Rightarrow> string list \<Rightarrow> string" where
  "joinStrings sep [] = []"
| "joinStrings sep [x] = x"
| "joinStrings sep (x # y # zs) = x @ sep @ joinStrings sep (y # zs)"

text \<open>\<^verbatim>\<open>ToString\<close>, which also turns a value into a property key.\<close>

fun toString :: "jsvalue \<Rightarrow> string" where
  "toString Undefined = ''undefined''"
| "toString (Cell (Str s)) = s"
| "toString (Cell (Num n)) = numToString n"
| "toString (Strings xs) = joinStrings '','' xs"

text \<open>Truthiness, for \<^verbatim>\<open>||\<close> and \<^verbatim>\<open>if (x)\<close>.\<close>

fun truthy :: "jsvalue \<Rightarrow> bool" where
  "truthy Undefined = False"
| "truthy (Cell (Str s)) = (s \<noteq> [])"
| "truthy (Cell (Num NaN)) = False"
| "truthy (Cell (Num (Inf pos))) = True"
| "truthy (Cell (Num (Dec m e))) = (m \<noteq> 0)"
| "truthy (Strings xs) = True"

subsection \<open>parseInt and parseFloat\<close>

definition hexVal :: "char \<Rightarrow> nat option" where
  "hexVal c =
     (let n = (of_char c :: nat)
      in if 48 \<le> n \<and> n \<le> 57 then Some (n - 48)
         else if 65 \<le> n \<and> n \<le> 70 then Some (n - 55)
         else if 97 \<le> n \<and> n \<le> 102 then Some (n - 87)
         else None)"

definition isHexDigit :: "char \<Rightarrow> bool" where
  "isHexDigit c = (hexVal c \<noteq> None)"

definition hexDigitsVal :: "string \<Rightarrow> nat" where
  "hexDigitsVal ds = foldl (\<lambda>a c. 16 * a + (case hexVal c of None \<Rightarrow> 0 | Some d \<Rightarrow> d)) 0 ds"

text \<open>An optional sign: whether it is a minus, and the rest.\<close>

fun takeSign :: "string \<Rightarrow> bool \<times> string" where
  "takeSign [] = (False, [])"
| "takeSign (c # cs) =
     (if c = CHR ''-'' then (True, cs) else if c = CHR ''+'' then (False, cs) else (False, c # cs))"

fun hexPrefix :: "string \<Rightarrow> bool" where
  "hexPrefix (z # x # cs) = (z = CHR ''0'' \<and> (x = CHR ''x'' \<or> x = CHR ''X''))"
| "hexPrefix cs = False"

text \<open>
  \<^verbatim>\<open>parseInt(s)\<close> with no radix: leading white space, a sign, a \<^verbatim>\<open>0x\<close> prefix for
  radix 16, then the longest run of digits; \<^verbatim>\<open>NaN\<close> (\<open>None\<close>) when there is none.
\<close>

definition parseInt :: "string \<Rightarrow> int option" where
  "parseInt s =
     (let (neg, t) = takeSign (dropWhile isWhite s);
          hex = hexPrefix t;
          ds = (if hex then takeWhile isHexDigit (drop 2 t) else takeWhile isDigit t)
      in if ds = [] then None
         else let v = int (if hex then hexDigitsVal ds else digitsVal ds)
              in Some (if neg then - v else v))"

text \<open>
  \<^verbatim>\<open>parseFloat(s)\<close>: leading white space, a sign, then \<^verbatim>\<open>Infinity\<close> or the longest
  decimal literal (digits, a fraction, an exponent that has digits).
\<close>

definition parseExponent :: "string \<Rightarrow> int" where
  "parseExponent r =
     (case r of
        [] \<Rightarrow> 0
      | c # cs \<Rightarrow>
          if c = CHR ''e'' \<or> c = CHR ''E'' then
            (let (neg, u) = takeSign cs; ds = takeWhile isDigit u
             in if ds = [] then 0 else if neg then - int (digitsVal ds) else int (digitsVal ds))
          else 0)"

definition parseFloat :: "string \<Rightarrow> number" where
  "parseFloat s =
     (let (neg, t) = takeSign (dropWhile isWhite s)
      in if take 8 t = ''Infinity'' then Inf (\<not> neg)
         else
           let ip = takeWhile isDigit t;
               r1 = dropWhile isDigit t;
               (fp, r2) = (case r1 of
                             [] \<Rightarrow> ([], r1)
                           | c # cs \<Rightarrow> if c = CHR ''.'' then (takeWhile isDigit cs, dropWhile isDigit cs)
                                       else ([], r1))
           in if ip = [] \<and> fp = [] then NaN
              else let m = int (digitsVal (ip @ fp))
                   in Dec (if neg then - m else m) (parseExponent r2 - int (length fp)))"

text \<open>Multiplication of numbers.\<close>

fun mulNum :: "number \<Rightarrow> number \<Rightarrow> number" where
  "mulNum NaN y = NaN"
| "mulNum x NaN = NaN"
| "mulNum (Inf p) (Inf q) = Inf (p = q)"
| "mulNum (Inf p) (Dec m e) = (if m = 0 then NaN else Inf (p = (0 < m)))"
| "mulNum (Dec m e) (Inf p) = (if m = 0 then NaN else Inf (p = (0 < m)))"
| "mulNum (Dec m e) (Dec n f) = Dec (m * n) (e + f)"

definition ofRow :: "int option \<Rightarrow> number" where
  "ofRow r = (case r of None \<Rightarrow> NaN | Some i \<Rightarrow> Dec i 0)"

subsection \<open>String methods\<close>

definition endsWith :: "string \<Rightarrow> string \<Rightarrow> bool" where
  "endsWith s suf = (length suf \<le> length s \<and> drop (length s - length suf) s = suf)"

definition startsWith :: "string \<Rightarrow> string \<Rightarrow> bool" where
  "startsWith s pre = (take (length pre) s = pre)"

text \<open>\<^verbatim>\<open>s.split(sep)\<close> for a one-character separator.\<close>

fun splitOn :: "char \<Rightarrow> string \<Rightarrow> string list" where
  "splitOn sep [] = [[]]"
| "splitOn sep (c # cs) =
     (if c = sep then [] # splitOn sep cs
      else (case splitOn sep cs of [] \<Rightarrow> [[c]] | w # ws \<Rightarrow> (c # w) # ws))"


text \<open>\<^verbatim>\<open>xs[0]\<close> and \<^verbatim>\<open>xs[1]\<close> of an array of strings, then used in a template.\<close>

definition atOrUndefined :: "string list \<Rightarrow> nat \<Rightarrow> string" where
  "atOrUndefined xs i = (if i < length xs then xs ! i else ''undefined'')"

text \<open>A loop whose body may throw: the first error ends it.\<close>

fun forEachE :: "('a \<Rightarrow> 's \<Rightarrow> error + 's) \<Rightarrow> 'a list \<Rightarrow> 's \<Rightarrow> error + 's" where
  "forEachE body [] s = Inr s"
| "forEachE body (x # xs) s =
     (case body x s of Inl e \<Rightarrow> Inl e | Inr s' \<Rightarrow> forEachE body xs s')"

section \<open>Constants of the program\<close>

definition mandatoryFields :: "string list" where
  "mandatoryFields =
     [''Customer'', ''Cust No'' @ [CHR 39], ''Project Type'',
      ''Quantity'', ''Price Per Item'', ''Item Price Currency'',
      ''Total Price'', ''Invoice Currency'', ''Status'']"

definition columnLetters :: "char list" where
  "columnLetters = ''ABCDEFGHIJKLMNOPQRSTUVWXYZ''"

definition CHAR_OFFSET :: int where
  "CHAR_OFFSET = 65"

subsection \<open>The validation schema\<close>

text \<open>
  The schemas of \<^verbatim>\<open>invoiceDataFormat\<close> are values of the zod library, which is not
  part of the repository. The datatype below holds the schema constructors the program
  uses, and \<open>safeParse\<close> returns the messages of the issues zod reports (none on
  success), with zod's default texts.
\<close>

datatype stringCheck = MaxLen nat | ExactLen nat | ToUpperCase

datatype numberCheck = IsInt | Gte int | Lte int

datatype schema = ZString "stringCheck list" | ZNumber "numberCheck list" | ZEnum "string list"

definition invoiceDataFormat :: "string \<Rightarrow> schema option" where
  "invoiceDataFormat name =
     (if name = ''Customer'' then Some (ZString [])
      else if name = ''Cust No'' @ [CHR 39] then Some (ZNumber [IsInt, Gte 10000, Lte 99999])
      else if name = ''Project Type'' then Some (ZString [MaxLen 20])
      else if name = ''Quantity'' then Some (ZNumber [])
      else if name = ''Price Per Item'' then Some (ZNumber [])
      else if name = ''Item Price Currency'' then Some (ZString [ToUpperCase, ExactLen 3])
      else if name = ''Total Price'' then Some (ZNumber [])
      else if name = ''Invoice Currency'' then Some (ZString [ToUpperCase, ExactLen 3])
      else if name = ''Status'' then Some (ZEnum [''Ready'', ''Done''])
      else None)"

text \<open>What zod calls the type of a value in its messages.\<close>

fun parsedType :: "jsvalue \<Rightarrow> string" where
  "parsedType Undefined = ''undefined''"
| "parsedType (Cell (Str s)) = ''string''"
| "parsedType (Cell (Num NaN)) = ''nan''"
| "parsedType (Cell (Num n)) = ''number''"
| "parsedType (Strings xs) = ''array''"

definition invalidType :: "string \<Rightarrow> jsvalue \<Rightarrow> string" where
  "invalidType expected v =
     (if v = Undefined then ''Required''
      else ''Expected '' @ expected @ '', received '' @ parsedType v)"

definition toUpperChar :: "char \<Rightarrow> char" where
  "toUpperChar c =
     (if 97 \<le> (of_char c :: nat) \<and> (of_char c :: nat) \<le> 122 then char_of ((of_char c :: nat) - 32) else c)"

text \<open>The string checks run in order; \<open>ToUpperCase\<close> changes the data the later ones see.\<close>

fun stringChecks :: "stringCheck list \<Rightarrow> string \<Rightarrow> string list" where
  "stringChecks [] s = []"
| "stringChecks (MaxLen n # cs) s =
     (if n < length s
      then [''String must contain at most '' @ natToString n @ '' character(s)'']
      else []) @ stringChecks cs s"
| "stringChecks (ExactLen n # cs) s =
     (if length s \<noteq> n
      then [''String must contain exactly '' @ natToString n @ '' character(s)'']
      else []) @ stringChecks cs s"
| "stringChecks (ToUpperCase # cs) s = stringChecks cs (map toUpperChar s)"

text \<open>\<^verbatim>\<open>Number.isInteger\<close> and the comparisons with an integer bound.\<close>

fun isInteger :: "number \<Rightarrow> bool" where
  "isInteger (Dec m e) = (0 \<le> e \<or> m mod 10 ^ nat (- e) = 0)"
| "isInteger n = False"

fun geInt :: "number \<Rightarrow> int \<Rightarrow> bool" where
  "geInt NaN b = False"
| "geInt (Inf pos) b = pos"
| "geInt (Dec m e) b = (if 0 \<le> e then b \<le> m * 10 ^ nat e else b * 10 ^ nat (- e) \<le> m)"

fun leInt :: "number \<Rightarrow> int \<Rightarrow> bool" where
  "leInt NaN b = False"
| "leInt (Inf pos) b = (\<not> pos)"
| "leInt (Dec m e) b = (if 0 \<le> e then m * 10 ^ nat e \<le> b else m \<le> b * 10 ^ nat (- e))"

fun numberChecks :: "numberCheck list \<Rightarrow> number \<Rightarrow> string list" where
  "numberChecks [] x = []"
| "numberChecks (IsInt # cs) x =
     (if isInteger x then [] else [''Expected integer, received float'']) @ numberChecks cs x"
| "numberChecks (Gte b # cs) x =
     (if geInt x b then []
      else [''Number must be greater than or equal to '' @ intToString b]) @ numberChecks cs x"
| "numberChecks (Lte b # cs) x =
     (if leInt x b then []
      else [''Number must be less than or equal to '' @ intToString b]) @ numberChecks cs x"

definition quoted :: "string \<Rightarrow> string" where
  "quoted s = [CHR 39] @ s @ [CHR 39]"

fun safeParse :: "schema \<Rightarrow> jsvalue \<Rightarrow> string list" where
  "safeParse (ZString cs) v =
     (case v of Cell (Str s) \<Rightarrow> stringChecks cs s | _ \<Rightarrow> [invalidType ''string'' v])"
| "safeParse (ZNumber cs) v =
     (case v of
        Cell (Num n) \<Rightarrow> if n = NaN then [invalidType ''number'' v] else numberChecks cs n
      | _ \<Rightarrow> [invalidType ''number'' v])"
| "safeParse (ZEnum opts) v =
     (case v of
        Cell (Str s) \<Rightarrow>
          if s \<in> set opts then []
          else [''Invalid enum value. Expected '' @ joinStrings '' | '' (map quoted opts)
                @ '', received '' @ quoted s]
      | _ \<Rightarrow> [invalidType (joinStrings '' | '' (map quoted opts)) v])"

section \<open>Sheet Model helpers\<close>

text \<open>\<^verbatim>\<open>cell.charCodeAt(0)\<close>: \<open>None\<close> is \<^verbatim>\<open>NaN\<close>, for the empty string.\<close>

definition charCodeAt0 :: "string \<Rightarrow> int option" where
  "charCodeAt0 s = (case s of [] \<Rightarrow> None | c # cs \<Rightarrow> Some (of_char c))"

text \<open>
  \<^verbatim>\<open>getRightCellIndex\<close>: the next column letter, followed by \<^verbatim>\<open>cell[1]\<close>, the
  second character of the address (\<^verbatim>\<open>undefined\<close> when there is none).
\<close>

definition getRightCellIndex :: "string \<Rightarrow> error + string" where
  "getRightCellIndex cell =
     (case charCodeAt0 cell of
        None \<Rightarrow> Inl (Error ''Wrong column index'')
      | Some code \<Rightarrow>
          let columnIndex = code - CHAR_OFFSET
          in if 0 \<le> columnIndex \<and> columnIndex < int (length columnLetters) - 1
             then Inr (columnLetters ! nat (columnIndex + 1)
                       # (case drop 1 cell of [] \<Rightarrow> ''undefined'' | d # ds \<Rightarrow> [d]))
             else Inl (Error ''Wrong column index''))"

text \<open>\<^verbatim>\<open>rowColFromString\<close>: \<^verbatim>\<open>cell[0]\<close> (\<open>None\<close> is \<^verbatim>\<open>undefined\<close>) and the parsed rest.\<close>

definition rowColFromString :: "string \<Rightarrow> char option \<times> int option" where
  "rowColFromString cell = ((case cell of [] \<Rightarrow> None | c # cs \<Rightarrow> Some c), parseInt (drop 1 cell))"

definition monthsArray :: "string obj" where
  "monthsArray =
     [(''Jan'', ''01''), (''Feb'', ''02''), (''Mar'', ''03''), (''Apr'', ''04''),
      (''May'', ''05''), (''Jun'', ''06''), (''Jul'', ''07''), (''Aug'', ''08''),
      (''Sep'', ''09''), (''Oct'', ''10''), (''Nov'', ''11''), (''Dec'', ''12'')]"

definition parseInvoicingDate :: "string \<Rightarrow> string" where
  "parseInvoicingDate dateString =
     (let dateArray = splitOn CHR '' '' dateString;
          month = atOrUndefined dateArray 0;
          year = atOrUndefined dateArray 1
      in year @ ''-'' @ (case objGet monthsArray month of None \<Rightarrow> ''undefined'' | Some mm \<Rightarrow> mm))"

section \<open>Rate Table Builder\<close>

definition isRateCell :: "string \<times> cell \<Rightarrow> bool" where
  "isRateCell value = (case snd value of Str s \<Rightarrow> endsWith s ''Rate'' | Num n \<Rightarrow> False)"

text \<open>\<^verbatim>\<open>file[rightCellIndex] || "No value"\<close>.\<close>

definition orNoValue :: "jsvalue \<Rightarrow> cell" where
  "orNoValue v = (case v of Cell c \<Rightarrow> if truthy v then c else Str ''No value'' | _ \<Rightarrow> Str ''No value'')"

definition rateBody :: "sheet \<Rightarrow> string \<times> cell \<Rightarrow> cell obj \<Rightarrow> error + cell obj" where
  "rateBody file value currencyRates =
     (case snd value of
        Num n \<Rightarrow> Inl TypeError
      | Str cellValue \<Rightarrow>
          let rateName = atOrUndefined (splitOn CHR '' '' cellValue) 0
          in (case getRightCellIndex (fst value) of
                Inl e \<Rightarrow> Inl e
              | Inr rightCellIndex \<Rightarrow>
                  Inr (objSet rateName (orNoValue (fileGet file rightCellIndex)) currencyRates)))"

definition parseCurrencyRates :: "sheet \<Rightarrow> error + cell obj" where
  "parseCurrencyRates file = forEachE (rateBody file) (filter isRateCell file) []"

section \<open>Record Extractor\<close>

text \<open>\<^verbatim>\<open>fileEntries.find(element => element[1] === marker)\<close>.\<close>

definition findEntry :: "string \<Rightarrow> sheet \<Rightarrow> (string \<times> cell) option" where
  "findEntry marker fileEntries = find (\<lambda>element. snd element = Str marker) fileEntries"

text \<open>\<^verbatim>\<open>!==\<close> and \<^verbatim>\<open>>\<close> on row numbers: \<^verbatim>\<open>NaN\<close> differs from everything and is
  greater than nothing.\<close>

definition rowNeq :: "int option \<Rightarrow> int option \<Rightarrow> bool" where
  "rowNeq a b = (case (a, b) of (Some x, Some y) \<Rightarrow> x \<noteq> y | _ \<Rightarrow> True)"

definition rowGreater :: "int option \<Rightarrow> int option \<Rightarrow> bool" where
  "rowGreater a b = (case (a, b) of (Some x, Some y) \<Rightarrow> y < x | _ \<Rightarrow> False)"

text \<open>The template \<^verbatim>\<open>`${columnLetters[i]}${row}`\<close>.\<close>

definition cellIndexOf :: "char \<Rightarrow> int option \<Rightarrow> string" where
  "cellIndexOf letter row = letter # rowToString row"

text \<open>The \<^verbatim>\<open>columns\<close> map: header cells with a truthy value, keyed by their address.\<close>

definition harvestColumn :: "sheet \<Rightarrow> int option \<Rightarrow> char \<Rightarrow> cell obj \<Rightarrow> cell obj" where
  "harvestColumn file headerRowIndex letter columns =
     (let cellIndex = cellIndexOf letter headerRowIndex
      in case fileGet file cellIndex of
           Cell c \<Rightarrow> if truthy (Cell c) then objSet cellIndex c columns else columns
         | _ \<Rightarrow> columns)"

definition harvestColumns :: "sheet \<Rightarrow> int option \<Rightarrow> cell obj" where
  "harvestColumns file headerRowIndex = fold (harvestColumn file headerRowIndex) columnLetters []"

text \<open>\<^verbatim>\<open>columns.get(columnNameIndex)\<close>.\<close>

definition columnsGet :: "cell obj \<Rightarrow> string \<Rightarrow> jsvalue" where
  "columnsGet columns k = (case objGet columns k of None \<Rightarrow> Undefined | Some c \<Rightarrow> Cell c)"

text \<open>The filter that selects \<^verbatim>\<open>entriesToProcess\<close>: it looks at one cell at a time.\<close>

definition admits :: "char option \<Rightarrow> int option \<Rightarrow> char option \<Rightarrow> string \<times> cell \<Rightarrow> bool" where
  "admits statusCol statusRow invoiceNoCol value =
     (let (valueCol, valueRow) = rowColFromString (fst value);
          entryValue = snd value
      in if rowGreater valueRow statusRow then
           (if valueCol = statusCol \<and> entryValue = Str ''Ready'' then True
            else valueCol = invoiceNoCol \<and>
                 (case entryValue of
                    Str s \<Rightarrow> startsWith s ''INV'' \<and> length s = 11
                  | Num n \<Rightarrow> False))
         else False)"

definition entriesToProcess :: "sheet \<Rightarrow> char option \<Rightarrow> int option \<Rightarrow> char option \<Rightarrow> (string \<times> cell) list" where
  "entriesToProcess file statusCol statusRow invoiceNoCol =
     filter (admits statusCol statusRow invoiceNoCol) file"

definition rowsToProcess :: "sheet \<Rightarrow> char option \<Rightarrow> int option \<Rightarrow> char option \<Rightarrow> int option list" where
  "rowsToProcess file statusCol statusRow invoiceNoCol =
     map (\<lambda>element. parseInt (drop 1 (fst element)))
       (entriesToProcess file statusCol statusRow invoiceNoCol)"

text \<open>\<^verbatim>\<open>mandatoryFields.has(columnName)\<close>: the name when it is a mandatory one.\<close>

definition mandatoryName :: "jsvalue \<Rightarrow> string option" where
  "mandatoryName columnName =
     (case columnName of
        Cell (Str name) \<Rightarrow> if name \<in> set mandatoryFields then Some name else None
      | _ \<Rightarrow> None)"

text \<open>
  \<^verbatim>\<open>[...(entry.validationErrors || [])]\<close>: an array spreads into its elements, a string
  into its characters, a falsy value gives the empty list, and a non-zero number is not
  iterable.
\<close>

fun spreadOrEmpty :: "jsvalue \<Rightarrow> error + string list" where
  "spreadOrEmpty (Strings xs) = Inr xs"
| "spreadOrEmpty (Cell (Str s)) = Inr (map (\<lambda>c. [c]) s)"
| "spreadOrEmpty v = (if truthy v then Inl TypeError else Inr [])"

text \<open>The part of the loop body that validates a mandatory column.\<close>

definition validateColumn :: "jsvalue \<Rightarrow> jsvalue \<Rightarrow> entry \<Rightarrow> error + entry" where
  "validateColumn columnName cellValue entry =
     (case mandatoryName columnName of
        None \<Rightarrow> Inr entry
      | Some name \<Rightarrow>
          (case invoiceDataFormat name of
             None \<Rightarrow> Inl TypeError
           | Some sch \<Rightarrow>
               let validationErrorsArray = map (\<lambda>message. name @ '': '' @ message) (safeParse sch cellValue)
               in if validationErrorsArray = [] then Inr entry
                  else (case spreadOrEmpty (entryGet entry ''validationErrors'') of
                          Inl e \<Rightarrow> Inl e
                        | Inr old \<Rightarrow>
                            Inr (objSet ''validationErrors'' (Strings (old @ validationErrorsArray)) entry))))"

definition columnBody :: "sheet \<Rightarrow> int option \<Rightarrow> cell obj \<Rightarrow> int option \<Rightarrow> char \<Rightarrow> entry \<Rightarrow> error + entry" where
  "columnBody file headerRowIndex columns row letter entry =
     (let cellIndex = cellIndexOf letter row;
          columnNameIndex = cellIndexOf letter headerRowIndex;
          columnName = columnsGet columns columnNameIndex;
          cellValue = fileGet file cellIndex
      in case validateColumn columnName cellValue entry of
           Inl e \<Rightarrow> Inl e
         | Inr entry' \<Rightarrow> Inr (objSet (toString columnName) cellValue entry'))"

definition buildEntry :: "sheet \<Rightarrow> int option \<Rightarrow> cell obj \<Rightarrow> int option \<Rightarrow> error + entry" where
  "buildEntry file headerRowIndex columns row =
     forEachE (columnBody file headerRowIndex columns row) columnLetters
       [(''validationErrors'', Strings [])]"

definition pushEntry :: "sheet \<Rightarrow> int option \<Rightarrow> cell obj \<Rightarrow> int option \<Rightarrow> entry list \<Rightarrow> error + entry list" where
  "pushEntry file headerRowIndex columns row invoicesData =
     (case buildEntry file headerRowIndex columns row of
        Inl e \<Rightarrow> Inl e
      | Inr entry \<Rightarrow> Inr (invoicesData @ [entry]))"

definition parseInvoicesData :: "sheet \<Rightarrow> error + entry list" where
  "parseInvoicesData file =
     (case findEntry ''Status'' file of
        None \<Rightarrow> Inl TypeError
      | Some statusEntry \<Rightarrow>
          (case findEntry ''Invoice #'' file of
             None \<Rightarrow> Inl TypeError
           | Some invoiceNoEntry \<Rightarrow>
               let (statusCol, statusRow) = rowColFromString (fst statusEntry);
                   (invoiceNoCol, invoiceNoRow) = rowColFromString (fst invoiceNoEntry)
               in if rowNeq statusRow invoiceNoRow then Inl (Error ''Broken table'')
                  else
                    let headerRowIndex = statusRow;
                        columns = harvestColumns file headerRowIndex
                    in forEachE (pushEntry file headerRowIndex columns)
                         (rowsToProcess file statusCol statusRow invoiceNoCol) []))"

section \<open>Structure Validator\<close>

definition checkMandatory :: "sheet \<Rightarrow> string \<Rightarrow> unit \<Rightarrow> error + unit" where
  "checkMandatory fileEntries mandatoryField u =
     (if findEntry mandatoryField fileEntries = None
      then Inl (Error ''Mandatory field is missing'')
      else Inr ())"

definition validateSheetStructure :: "sheet \<Rightarrow> error + unit" where
  "validateSheetStructure file =
     (if findEntry ''Status'' file = None
        then Inl (Error (''No '' @ [CHR 39] @ ''Status'' @ [CHR 39] @ '' cell in sheet''))
      else if findEntry ''Invoice #'' file = None
        then Inl (Error (''No '' @ [CHR 39] @ ''Invoice #'' @ [CHR 39] @ '' cell in sheet''))
      else (case fileGet file ''A1'' of
              Cell (Str s) \<Rightarrow> forEachE (checkMandatory file) mandatoryFields ()
            | _ \<Rightarrow> Inl (Error ''Wrong Invoice Date'')))"

section \<open>Total Calculator\<close>

definition invoiceTotal :: "entry \<Rightarrow> cell obj \<Rightarrow> string" where
  "invoiceTotal invoiceData currencyRates =
     (let invoiceCurrency = entryGet invoiceData ''Invoice Currency''
      in case objGet currencyRates (toString invoiceCurrency) of
           Some rate \<Rightarrow>
             numToString
               (mulNum (ofRow (parseInt (toString (entryGet invoiceData ''Total Price''))))
                       (parseFloat (toString (Cell rate))))
         | None \<Rightarrow> ''No such currency defined'')"

definition calculateTotalInvoiceCurrency :: "entry list \<Rightarrow> cell obj \<Rightarrow> entry list" where
  "calculateTotalInvoiceCurrency invoicesData currencyRates =
     map (\<lambda>invoiceData.
            objSet ''Invoice Total'' (Cell (Str (invoiceTotal invoiceData currencyRates))) invoiceData)
       invoicesData"

section \<open>The request handler\<close>

text \<open>
  The handler after the upload is decoded: \<open>file\<close> is the decoded sheet and
  \<open>invoicingMonthParameter\<close> is \<^verbatim>\<open>req.body.invoicingMonth\<close>.
\<close>

record outputObj =
  InvoicingMonth :: string
  currencyRates :: "cell obj"
  invoicesData :: "entry list"

definition handler :: "sheet \<Rightarrow> jsvalue \<Rightarrow> error + outputObj" where
  "handler file invoicingMonthParameter =
     (case validateSheetStructure file of
        Inl e \<Rightarrow> Inl e
      | Inr u \<Rightarrow>
          (case fileGet file ''A1'' of
             Cell (Str dateString) \<Rightarrow>
               let invoicingMonth = parseInvoicingDate dateString
               in if Cell (Str invoicingMonth) \<noteq> invoicingMonthParameter
                  then Inl (Error ''Invoicing month param dont match file invoicing month'')
                  else (case parseCurrencyRates file of
                          Inl e \<Rightarrow> Inl e
                        | Inr rates \<Rightarrow>
                            (case parseInvoicesData file of
                               Inl e \<Rightarrow> Inl e
                             | Inr records \<Rightarrow>
                                 Inr \<lparr>InvoicingMonth = invoicingMonth,
                                      currencyRates = rates,
                                      invoicesData = calculateTotalInvoiceCurrency records rates\<rparr>))
           | _ \<Rightarrow> Inl TypeError))"

section \<open>Notions used to state the properties\<close>

text \<open>
  The keys of a decoded sheet are cell addresses: column letters followed by the decimal
  row number. For the columns A to Z, \<open>rowColFromString\<close> reads the column and the row
  back, and the key is the address \<open>cellIndexOf\<close> builds from them; for the columns from
  AA on, what follows the first letter is not a number. A key is well formed when, if
  \<open>rowColFromString\<close> reads a row from it at all, it is the address of the column and row
  read.
\<close>

definition wellFormedKey :: "string \<Rightarrow> bool" where
  "wellFormedKey k =
     (case rowColFromString k of
        (Some c, Some r) \<Rightarrow> k = cellIndexOf c (Some r)
      | (valueCol, valueRow) \<Rightarrow> valueRow = None)"

text \<open>A string of length 11 that starts with \<^verbatim>\<open>INV\<close>.\<close>

definition invoiceNumberLike :: "jsvalue \<Rightarrow> bool" where
  "invoiceNumberLike v =
     (case v of Cell (Str s) \<Rightarrow> startsWith s ''INV'' \<and> length s = 11 | _ \<Rightarrow> False)"

text \<open>
  The column name the extractor sees for a column letter, and the property key under
  which it stores that column's values.
\<close>

definition headerName :: "sheet \<Rightarrow> int option \<Rightarrow> char \<Rightarrow> jsvalue" where
  "headerName file headerRowIndex letter =
     columnsGet (harvestColumns file headerRowIndex) (cellIndexOf letter headerRowIndex)"

definition columnKey :: "sheet \<Rightarrow> int option \<Rightarrow> char \<Rightarrow> string" where
  "columnKey file headerRowIndex letter = toString (headerName file headerRowIndex letter)"

definition validationErrorsOf :: "entry \<Rightarrow> string list" where
  "validationErrorsOf record =
     (case entryGet record ''validationErrors'' of Strings xs \<Rightarrow> xs | _ \<Rightarrow> [])"

text \<open>The messages that validating one column of one row produces.\<close>

definition columnMessages :: "sheet \<Rightarrow> int option \<Rightarrow> int option \<Rightarrow> char \<Rightarrow> string list" where
  "columnMessages file headerRowIndex row letter =
     (case mandatoryName (headerName file headerRowIndex letter) of
        None \<Rightarrow> []
      | Some name \<Rightarrow>
          (case invoiceDataFormat name of
             None \<Rightarrow> []
           | Some sch \<Rightarrow>
               map (\<lambda>message. name @ '': '' @ message)
                 (safeParse sch (fileGet file (cellIndexOf letter row)))))"

text \<open>
  What a record owes to a mandatory column of its row: every message of the column's
  validation is in the record's error list, and, when no other column carries the same
  name, the raw cell value is stored under the name.
\<close>

definition columnRecorded :: "sheet \<Rightarrow> int option \<Rightarrow> int option \<Rightarrow> entry \<Rightarrow> char \<Rightarrow> bool" where
  "columnRecorded file headerRowIndex row record letter =
     (case mandatoryName (headerName file headerRowIndex letter) of
        None \<Rightarrow> True
      | Some name \<Rightarrow>
          (case invoiceDataFormat name of
             None \<Rightarrow> True
           | Some sch \<Rightarrow>
               (\<forall>message\<in>set (safeParse sch (fileGet file (cellIndexOf letter row))).
                   name @ '': '' @ message \<in> set (validationErrorsOf record))
               \<and> ((\<forall>other\<in>set columnLetters.
                      other \<noteq> letter \<longrightarrow> columnKey file headerRowIndex other \<noteq> name)
                    \<longrightarrow> entryGet record name = fileGet file (cellIndexOf letter row))))"

subsection \<open>Example sheets\<close>

text \<open>
  The sheet of the specification's end-to-end example: the invoicing date in \<^verbatim>\<open>A1\<close>, a
  rate annotation in row 2, the header in row 5 and one invoice in row 6.
\<close>

definition exampleHeader :: sheet where
  "exampleHeader =
     [(''A1'', Str ''Sep 2023''), (''A2'', Str ''USD Rate''), (''B2'', Str ''1.1''),
      (''A5'', Str ''Customer''), (''B5'', Str (''Cust No'' @ [CHR 39])),
      (''C5'', Str ''Project Type''), (''D5'', Str ''Quantity''),
      (''E5'', Str ''Status''), (''F5'', Str ''Invoice #''),
      (''G5'', Str ''Price Per Item''), (''H5'', Str ''Item Price Currency''),
      (''I5'', Str ''Total Price''), (''J5'', Str ''Invoice Currency'')]"

definition exampleSheet :: sheet where
  "exampleSheet =
     exampleHeader @
     [(''A6'', Str ''ACME''), (''B6'', Num (Dec 12345 0)), (''C6'', Str ''web''),
      (''D6'', Num (Dec 2 0)), (''E6'', Str ''Ready''), (''F6'', Str ''INV00000001''),
      (''G6'', Num (Dec 50 0)), (''H6'', Str ''USD''), (''I6'', Num (Dec 100 0)),
      (''J6'', Str ''USD'')]"

text \<open>The record that the extractor assembles from row 6 of \<open>exampleSheet\<close>.\<close>

definition exampleRecord :: entry where
  "exampleRecord =
     [(''validationErrors'', Strings []),
      (''Customer'', Cell (Str ''ACME'')), (''Cust No'' @ [CHR 39], Cell (Num (Dec 12345 0))),
      (''Project Type'', Cell (Str ''web'')), (''Quantity'', Cell (Num (Dec 2 0))),
      (''Status'', Cell (Str ''Ready'')), (''Invoice #'', Cell (Str ''INV00000001'')),
      (''Price Per Item'', Cell (Num (Dec 50 0))), (''Item Price Currency'', Cell (Str ''USD'')),
      (''Total Price'', Cell (Num (Dec 100 0))), (''Invoice Currency'', Cell (Str ''USD'')),
      (''undefined'', Undefined)]"

text \<open>The example sheet without the cells that hold a given text.\<close>

definition sheetWithout :: "string \<Rightarrow> sheet" where
  "sheetWithout name = filter (\<lambda>value. snd value \<noteq> Str name) exampleSheet"

text \<open>A sheet whose status column reads \<^verbatim>\<open>Ready\<close> in row 3, above the header row.\<close>

definition sheetReadyAboveHeader :: sheet where
  "sheetReadyAboveHeader = exampleHeader @ [(''E3'', Str ''Ready'')]"

text \<open>A sheet whose two anchors are on rows 5 and 4.\<close>

definition sheetBrokenLayout :: sheet where
  "sheetBrokenLayout =
     [(''A1'', Str ''Sep 2023''), (''F4'', Str ''Invoice #''), (''E5'', Str ''Status'')]"

text \<open>
  A sheet with a column named \<^verbatim>\<open>validationErrors\<close> and an invoice whose status is not
  one of the allowed values.
\<close>

definition sheetErrorsColumn :: sheet where
  "sheetErrorsColumn =
     exampleHeader @
     [(''K5'', Str ''validationErrors''),
      (''A6'', Str ''ACME''), (''B6'', Num (Dec 12345 0)), (''C6'', Str ''web''),
      (''D6'', Num (Dec 2 0)), (''E6'', Str ''Pending''), (''F6'', Str ''INV00000001''),
      (''G6'', Num (Dec 50 0)), (''H6'', Str ''USD''), (''I6'', Num (Dec 100 0)),
      (''J6'', Str ''USD'')]"

text \<open>A sheet whose invoice has the customer number 123 and the status \<^verbatim>\<open>Done\<close>.\<close>

definition sheetBadCustNo :: sheet where
  "sheetBadCustNo =
     exampleHeader @
     [(''A6'', Str ''ACME''), (''B6'', Num (Dec 123 0)), (''C6'', Str ''web''),
      (''D6'', Num (Dec 2 0)), (''E6'', Str ''Done''), (''F6'', Str ''INV00000001''),
      (''G6'', Num (Dec 50 0)), (''H6'', Str ''USD''), (''I6'', Num (Dec 100 0)),
      (''J6'', Str ''USD'')]"

text \<open>The example sheet with one more cell in row 6, in column Z, which has no header.\<close>

definition sheetStrayCell :: sheet where
  "sheetStrayCell = exampleSheet @ [(''Z6'', Str ''stray'')]"

text \<open>
  A sheet whose first header cell is \<^verbatim>\<open>validationErrors\<close>, with the number 7 below it in
  row 6, and whose invoice in row 6 has a status that is not one of the allowed values.
\<close>

definition sheetErrorsNumber :: sheet where
  "sheetErrorsNumber =
     [(''A1'', Str ''Sep 2023''), (''A2'', Str ''USD Rate''), (''B2'', Str ''1.1''),
      (''A5'', Str ''validationErrors''), (''B5'', Str ''Status''), (''C5'', Str ''Invoice #''),
      (''D5'', Str ''Customer''), (''E5'', Str (''Cust No'' @ [CHR 39])),
      (''F5'', Str ''Project Type''), (''G5'', Str ''Quantity''),
      (''H5'', Str ''Price Per Item''), (''I5'', Str ''Item Price Currency''),
      (''J5'', Str ''Total Price''), (''K5'', Str ''Invoice Currency''),
      (''A6'', Num (Dec 7 0)), (''B6'', Str ''Pending''), (''C6'', Str ''INV00000001''),
      (''D6'', Str ''ACME''), (''E6'', Num (Dec 12345 0)), (''F6'', Str ''web''),
      (''G6'', Num (Dec 2 0)), (''H6'', Num (Dec 50 0)), (''I6'', Str ''USD''),
      (''J6'', Num (Dec 100 0)), (''K6'', Str ''USD'')]"

section \<open>Properties\<close>

subsection \<open>Objects\<close>

lemma objGet_objSet: "objGet (objSet k v ob) k' = (if k' = k then Some v else objGet ob k')"
  by (induction ob) (auto simp: objGet_def)

lemma objSet_objSet: "objSet k v (objSet k v' ob) = objSet k v ob"
  by (induction ob) auto

lemma entryGet_objSet: "entryGet (objSet k v en) k' = (if k' = k then v else entryGet en k')"
  by (simp add: entryGet_def objGet_objSet)

lemma fileGet_member:
  "distinct (map fst file) \<Longrightarrow> (k, c) \<in> set file \<Longrightarrow> fileGet file k = Cell c"
  by (simp add: fileGet_def objGet_def)

lemma fileGet_Cell_member: "fileGet file k = Cell c \<Longrightarrow> (k, c) \<in> set file"
  by (auto simp: fileGet_def objGet_def split: option.splits dest: map_of_SomeD)

subsection \<open>Reading back a printed row number\<close>

lemma isDigit_digitChar: "d < 10 \<Longrightarrow> isDigit (digitChar d)"
  by (simp add: isDigit_def digitChar_def)

lemma digitVal_digitChar: "d < 10 \<Longrightarrow> digitVal (digitChar d) = d"
  by (simp add: digitVal_def digitChar_def)

lemma natToString_digits: "list_all isDigit (natToString n)"
proof (induction n rule: natToString.induct)
  case (1 n)
  show ?case
  proof (cases "n < 10")
    case True
    then show ?thesis by (simp add: natToString.simps [of n] isDigit_digitChar)
  next
    case False
    with 1 show ?thesis by (simp add: natToString.simps [of n] isDigit_digitChar)
  qed
qed

lemma natToString_nonempty: "natToString n \<noteq> []"
  by (subst natToString.simps) simp

lemma digitsVal_snoc: "digitsVal (ds @ [c]) = 10 * digitsVal ds + digitVal c"
  by (simp add: digitsVal_def)

lemma digitsVal_natToString: "digitsVal (natToString n) = n"
proof (induction n rule: natToString.induct)
  case (1 n)
  show ?case
  proof (cases "n < 10")
    case True
    then show ?thesis by (simp add: natToString.simps [of n] digitsVal_def digitVal_digitChar)
  next
    case False
    with 1 show ?thesis
      by (simp add: natToString.simps [of n] digitsVal_snoc digitVal_digitChar)
  qed
qed

lemma isDigit_plain:
  "isDigit c \<Longrightarrow>
   \<not> isWhite c \<and> c \<noteq> CHR ''-'' \<and> c \<noteq> CHR ''+'' \<and> c \<noteq> CHR ''x'' \<and> c \<noteq> CHR ''X''"
  by (auto simp: isDigit_def isWhite_def)

lemma digits_no_hexPrefix:
  assumes "list_all isDigit ds"
  shows "\<not> hexPrefix ds"
proof (cases ds)
  case Nil
  then show ?thesis by simp
next
  case (Cons c cs)
  show ?thesis
  proof (cases cs)
    case Nil
    then show ?thesis using Cons by simp
  next
    case (Cons x xs)
    then have "isDigit x" using assms \<open>ds = c # cs\<close> by simp
    then show ?thesis using \<open>ds = c # cs\<close> Cons isDigit_plain by simp
  qed
qed

lemma parseInt_digits:
  assumes "list_all isDigit ds" and "ds \<noteq> []"
  shows "parseInt ds = Some (int (digitsVal ds))"
proof -
  obtain c cs where ds: "ds = c # cs" using assms(2) by (cases ds) auto
  have c: "isDigit c" using assms(1) ds by simp
  have w: "dropWhile isWhite ds = ds" using c ds isDigit_plain by simp
  have s: "takeSign ds = (False, ds)" using c ds isDigit_plain by simp
  have h: "\<not> hexPrefix ds" using assms(1) by (rule digits_no_hexPrefix)
  have t: "takeWhile isDigit ds = ds" using assms(1) by (simp add: list_all_iff)
  show ?thesis using assms(2) by (simp add: parseInt_def w s h t)
qed

lemma parseInt_minus_digits:
  assumes "list_all isDigit ds" and "ds \<noteq> []"
  shows "parseInt (CHR ''-'' # ds) = Some (- int (digitsVal ds))"
proof -
  have w: "\<not> isWhite CHR ''-''" by (simp add: isWhite_def)
  have h: "\<not> hexPrefix ds" using assms(1) by (rule digits_no_hexPrefix)
  have t: "takeWhile isDigit ds = ds" using assms(1) by (simp add: list_all_iff)
  show ?thesis using assms(2) by (simp add: parseInt_def w h t)
qed

lemma parseInt_intToString: "parseInt (intToString i) = Some i"
  by (simp add: intToString_def parseInt_digits parseInt_minus_digits
      natToString_digits natToString_nonempty digitsVal_natToString)

lemma rowColFromString_cellIndexOf:
  "rowColFromString (cellIndexOf letter (Some r)) = (Some letter, Some r)"
  by (simp add: rowColFromString_def cellIndexOf_def rowToString_def parseInt_intToString)

lemma parseInt_drop_cellIndexOf: "parseInt (drop (Suc 0) (cellIndexOf c (Some r))) = Some r"
  by (simp add: cellIndexOf_def rowToString_def parseInt_intToString)

lemma wellFormedKeyD:
  "wellFormedKey k \<Longrightarrow> parseInt (drop 1 k) = Some r \<Longrightarrow> \<exists>c. k = cellIndexOf c (Some r)"
  by (auto simp: wellFormedKey_def rowColFromString_def split: list.splits)

lemma cellIndexOf_inject: "cellIndexOf x h = cellIndexOf l h \<longleftrightarrow> x = l"
  by (simp add: cellIndexOf_def)

subsection \<open>The loop that pushes one record per admitted cell\<close>

lemma pushEntry_Inr:
  "buildEntry file h cols row = Inr e \<Longrightarrow> pushEntry file h cols row acc = Inr (acc @ [e])"
  by (simp add: pushEntry_def)

lemma pushEntry_Inl:
  "buildEntry file h cols row = Inl x \<Longrightarrow> pushEntry file h cols row acc = Inl x"
  by (simp add: pushEntry_def)

lemma forEachE_pushEntry:
  "forEachE (pushEntry file h cols) rows acc = Inr records \<Longrightarrow>
   \<exists>new. records = acc @ new \<and> list_all2 (\<lambda>row e. buildEntry file h cols row = Inr e) rows new"
proof (induction rows arbitrary: acc)
  case Nil
  then show ?case by simp
next
  case (Cons row rows)
  from Cons.prems obtain e where e: "buildEntry file h cols row = Inr e"
    by (cases "buildEntry file h cols row") (auto simp: pushEntry_Inl)
  with Cons.prems have rest: "forEachE (pushEntry file h cols) rows (acc @ [e]) = Inr records"
    by (simp add: pushEntry_Inr)
  from Cons.IH [OF rest] obtain new where
    "records = (acc @ [e]) @ new"
    "list_all2 (\<lambda>row e. buildEntry file h cols row = Inr e) rows new"
    by blast
  then have "records = acc @ (e # new)
             \<and> list_all2 (\<lambda>row e. buildEntry file h cols row = Inr e) (row # rows) (e # new)"
    using e by simp
  then show ?case by blast
qed

lemma forEachE_pushEntry_total:
  assumes "\<forall>row. \<exists>e. buildEntry file h cols row = Inr e"
  shows "\<exists>records. forEachE (pushEntry file h cols) rows acc = Inr records"
proof (induction rows arbitrary: acc)
  case Nil
  then show ?case by simp
next
  case (Cons row rows)
  from assms obtain e where "buildEntry file h cols row = Inr e" by blast
  then show ?case using Cons.IH by (simp add: pushEntry_Inr)
qed

lemma parseInvoicesData_same_row:
  assumes "findEntry ''Status'' file = Some (cellIndexOf statusLetter (Some headerRow), v)"
      and "findEntry ''Invoice #'' file = Some (cellIndexOf invoiceNoLetter (Some headerRow), w)"
  shows "parseInvoicesData file =
         forEachE (pushEntry file (Some headerRow) (harvestColumns file (Some headerRow)))
           (rowsToProcess file (Some statusLetter) (Some headerRow) (Some invoiceNoLetter)) []"
  using assms
  by (simp add: parseInvoicesData_def rowColFromString_cellIndexOf rowNeq_def Let_def)

subsection \<open>Which cells the filter admits\<close>

lemma admits_cellIndexOf:
  "admits (Some sc) (Some hr) (Some ic) (cellIndexOf c (Some r), v) =
   (hr < r \<and> ((c = sc \<and> v = Str ''Ready'') \<or> (c = ic \<and> invoiceNumberLike (Cell v))))"
  by (auto simp: admits_def rowColFromString_cellIndexOf rowGreater_def invoiceNumberLike_def
      split: cell.splits)

lemma admits_row:
  "admits sc (Some hr) ic (k, v) \<Longrightarrow> \<exists>r. parseInt (drop 1 k) = Some r"
  by (auto simp: admits_def rowColFromString_def rowGreater_def split: option.splits)

lemma set_rowsToProcess:
  assumes keys: "\<forall>el\<in>set file. wellFormedKey (fst el)"
      and dist: "distinct (map fst file)"
  shows "set (rowsToProcess file (Some sc) (Some hr) (Some ic)) =
         Some ` {r. hr < r \<and>
                    (fileGet file (cellIndexOf sc (Some r)) = Cell (Str ''Ready'')
                     \<or> invoiceNumberLike (fileGet file (cellIndexOf ic (Some r))))}"
    (is "?L = Some ` ?R")
proof (intro set_eqI iffI)
  fix x assume "x \<in> ?L"
  then obtain k v where kv: "(k, v) \<in> set file"
    and ad: "admits (Some sc) (Some hr) (Some ic) (k, v)"
    and x: "x = parseInt (drop 1 k)"
    by (auto simp: rowsToProcess_def entriesToProcess_def)
  from ad obtain r where r: "parseInt (drop 1 k) = Some r"
    using admits_row by blast
  from keys kv r obtain c where k: "k = cellIndexOf c (Some r)"
    using wellFormedKeyD by fastforce
  have g: "fileGet file (cellIndexOf c (Some r)) = Cell v"
    using fileGet_member [OF dist] kv k by simp
  from ad k
  have "hr < r \<and> ((c = sc \<and> v = Str ''Ready'') \<or> (c = ic \<and> invoiceNumberLike (Cell v)))"
    by (simp add: admits_cellIndexOf)
  with g have "r \<in> ?R" by auto
  moreover have "x = Some r" using x r by simp
  ultimately show "x \<in> Some ` ?R" by blast
next
  fix x assume "x \<in> Some ` ?R"
  then obtain r where x: "x = Some r" and hr: "hr < r"
    and c: "fileGet file (cellIndexOf sc (Some r)) = Cell (Str ''Ready'')
            \<or> invoiceNumberLike (fileGet file (cellIndexOf ic (Some r)))"
    by auto
  from c show "x \<in> ?L"
  proof
    assume "fileGet file (cellIndexOf sc (Some r)) = Cell (Str ''Ready'')"
    then have m: "(cellIndexOf sc (Some r), Str ''Ready'') \<in> set file"
      by (rule fileGet_Cell_member)
    have "admits (Some sc) (Some hr) (Some ic) (cellIndexOf sc (Some r), Str ''Ready'')"
      using hr by (simp add: admits_cellIndexOf)
    with m have "parseInt (drop 1 (fst (cellIndexOf sc (Some r), Str ''Ready''))) \<in> ?L"
      unfolding rowsToProcess_def entriesToProcess_def set_map set_filter by blast
    then show ?thesis using x by (simp add: parseInt_drop_cellIndexOf)
  next
    assume inv: "invoiceNumberLike (fileGet file (cellIndexOf ic (Some r)))"
    then obtain v where v: "fileGet file (cellIndexOf ic (Some r)) = Cell v"
      by (cases "fileGet file (cellIndexOf ic (Some r))") (auto simp: invoiceNumberLike_def)
    then have m: "(cellIndexOf ic (Some r), v) \<in> set file"
      by (rule fileGet_Cell_member)
    have "admits (Some sc) (Some hr) (Some ic) (cellIndexOf ic (Some r), v)"
      using hr inv v by (simp add: admits_cellIndexOf)
    with m have "parseInt (drop 1 (fst (cellIndexOf ic (Some r), v))) \<in> ?L"
      unfolding rowsToProcess_def entriesToProcess_def set_map set_filter by blast
    then show ?thesis using x by (simp add: parseInt_drop_cellIndexOf)
  qed
qed

subsection \<open>The column layout\<close>

lemma objGet_Nil: "objGet [] k = None"
  by (simp add: objGet_def)

lemma objGet_harvestColumn:
  "objGet (harvestColumn file h x cols) (cellIndexOf l h) =
   (if x = l \<and> truthy (fileGet file (cellIndexOf l h))
    then objGet file (cellIndexOf l h)
    else objGet cols (cellIndexOf l h))"
  by (auto simp: harvestColumn_def Let_def objGet_objSet cellIndexOf_inject fileGet_def
      split: jsvalue.splits option.splits)

lemma objGet_harvest:
  "objGet (fold (harvestColumn file h) ls cols) (cellIndexOf l h) =
   (if l \<in> set ls \<and> truthy (fileGet file (cellIndexOf l h))
    then objGet file (cellIndexOf l h)
    else objGet cols (cellIndexOf l h))"
proof (induction ls arbitrary: cols)
  case Nil
  then show ?case by simp
next
  case (Cons x ls)
  show ?case
    by (simp only: fold_simps Cons.IH objGet_harvestColumn) auto
qed

text \<open>The name of a column is its header cell when that cell is truthy, and
  \<^verbatim>\<open>undefined\<close> otherwise.\<close>

lemma headerName_eq:
  "letter \<in> set columnLetters \<Longrightarrow>
   headerName file h letter =
   (if truthy (fileGet file (cellIndexOf letter h)) then fileGet file (cellIndexOf letter h)
    else Undefined)"
  by (simp add: headerName_def columnsGet_def harvestColumns_def objGet_harvest objGet_Nil
      fileGet_def)

lemma columnKey_not_errors:
  assumes "letter \<in> set columnLetters"
      and "toString (fileGet file (cellIndexOf letter h)) \<noteq> ''validationErrors''"
  shows "columnKey file h letter \<noteq> ''validationErrors''"
  using assms by (simp add: columnKey_def headerName_eq)

subsection \<open>Assembling one record\<close>

lemma mandatory_has_schema:
  "name \<in> set mandatoryFields \<Longrightarrow> \<exists>sch. invoiceDataFormat name = Some sch"
  by (auto simp: mandatoryFields_def invoiceDataFormat_def)

lemma mandatoryName_Some:
  "mandatoryName v = Some name \<Longrightarrow> v = Cell (Str name) \<and> name \<in> set mandatoryFields"
  by (auto simp: mandatoryName_def split: jsvalue.splits cell.splits if_splits)

lemma validateColumn_errors:
  assumes "entryGet en ''validationErrors'' = Strings errs"
  shows "\<exists>en'. validateColumn (headerName file h letter) (fileGet file (cellIndexOf letter row)) en
                 = Inr en'
           \<and> entryGet en' ''validationErrors'' = Strings (errs @ columnMessages file h row letter)"
proof (cases "mandatoryName (headerName file h letter)")
  case None
  then show ?thesis using assms by (simp add: validateColumn_def columnMessages_def)
next
  case (Some name)
  then obtain sch where sch: "invoiceDataFormat name = Some sch"
    using mandatoryName_Some mandatory_has_schema by blast
  show ?thesis
    using Some sch assms
    by (simp add: validateColumn_def columnMessages_def entryGet_objSet Let_def)
qed

lemma validateColumn_other:
  assumes "validateColumn columnName cellValue en = Inr en'" and "k \<noteq> ''validationErrors''"
  shows "entryGet en' k = entryGet en k"
  using assms
  by (auto simp: validateColumn_def entryGet_objSet Let_def
      split: option.splits if_splits sum.splits)

lemma columnBody_errors:
  assumes "entryGet en ''validationErrors'' = Strings errs"
      and "columnKey file h letter \<noteq> ''validationErrors''"
  shows "\<exists>en'. columnBody file h (harvestColumns file h) row letter en = Inr en'
           \<and> entryGet en' ''validationErrors'' = Strings (errs @ columnMessages file h row letter)"
proof -
  from validateColumn_errors [OF assms(1)] obtain en1 where
    v: "validateColumn (headerName file h letter) (fileGet file (cellIndexOf letter row)) en = Inr en1"
    and e: "entryGet en1 ''validationErrors'' = Strings (errs @ columnMessages file h row letter)"
    by blast
  show ?thesis
    using v e assms(2)
    by (simp add: columnBody_def Let_def headerName_def [symmetric] columnKey_def [symmetric]
        entryGet_objSet)
qed

lemma columnBody_value:
  assumes "columnBody file h (harvestColumns file h) row letter en = Inr en'"
      and "k \<noteq> ''validationErrors''"
  shows "entryGet en' k =
         (if columnKey file h letter = k then fileGet file (cellIndexOf letter row)
          else entryGet en k)"
proof -
  from assms(1) obtain en1 where
    v: "validateColumn (headerName file h letter) (fileGet file (cellIndexOf letter row)) en = Inr en1"
    and s: "en' = objSet (columnKey file h letter) (fileGet file (cellIndexOf letter row)) en1"
    by (auto simp: columnBody_def Let_def headerName_def [symmetric] columnKey_def [symmetric]
        split: sum.splits)
  show ?thesis
    using validateColumn_other [OF v assms(2)] s by (simp add: entryGet_objSet)
qed

lemma forEachE_columnBody_errors:
  assumes "\<forall>l\<in>set ls. columnKey file h l \<noteq> ''validationErrors''"
      and "entryGet en ''validationErrors'' = Strings errs"
  shows "\<exists>en'. forEachE (columnBody file h (harvestColumns file h) row) ls en = Inr en'
           \<and> entryGet en' ''validationErrors''
               = Strings (errs @ concat (map (columnMessages file h row) ls))"
  using assms
proof (induction ls arbitrary: en errs)
  case Nil
  then show ?case by simp
next
  case (Cons l ls)
  from columnBody_errors [OF Cons.prems(2), of "file" h l row] Cons.prems(1)
  obtain en1 where
    b: "columnBody file h (harvestColumns file h) row l en = Inr en1"
    and e: "entryGet en1 ''validationErrors'' = Strings (errs @ columnMessages file h row l)"
    by auto
  from Cons.IH [OF _ e] Cons.prems(1) obtain en' where
    "forEachE (columnBody file h (harvestColumns file h) row) ls en1 = Inr en'"
    "entryGet en' ''validationErrors''
       = Strings ((errs @ columnMessages file h row l) @ concat (map (columnMessages file h row) ls))"
    by auto
  then show ?case using b by simp
qed

lemma forEachE_columnBody_value:
  assumes "forEachE (columnBody file h (harvestColumns file h) row) ls en = Inr en'"
      and "k \<noteq> ''validationErrors''"
      and "\<forall>l\<in>set ls. columnKey file h l = k \<longrightarrow> l = letter"
      and "(letter \<in> set ls \<and> columnKey file h letter = k)
           \<or> entryGet en k = fileGet file (cellIndexOf letter row)"
  shows "entryGet en' k = fileGet file (cellIndexOf letter row)"
  using assms
proof (induction ls arbitrary: en)
  case Nil
  then show ?case by simp
next
  case (Cons l ls)
  from Cons.prems(1) obtain en1 where
    b: "columnBody file h (harvestColumns file h) row l en = Inr en1"
    and r: "forEachE (columnBody file h (harvestColumns file h) row) ls en1 = Inr en'"
    by (auto split: sum.splits)
  have v: "entryGet en1 k =
           (if columnKey file h l = k then fileGet file (cellIndexOf l row) else entryGet en k)"
    using columnBody_value [OF b Cons.prems(2)] .
  have "(letter \<in> set ls \<and> columnKey file h letter = k)
        \<or> entryGet en1 k = fileGet file (cellIndexOf letter row)"
    using v Cons.prems(3,4) by auto
  with Cons.IH [OF r Cons.prems(2)] Cons.prems(3) show ?case by simp
qed

lemma buildEntry_ok:
  assumes "\<forall>l\<in>set columnLetters. columnKey file h l \<noteq> ''validationErrors''"
  shows "\<exists>e. buildEntry file h (harvestColumns file h) row = Inr e
           \<and> validationErrorsOf e = concat (map (columnMessages file h row) columnLetters)"
proof -
  have "entryGet [(''validationErrors'', Strings [])] ''validationErrors'' = Strings []"
    by (simp add: entryGet_def objGet_def)
  from forEachE_columnBody_errors [OF assms this, of row]
  show ?thesis by (auto simp: buildEntry_def validationErrorsOf_def)
qed

lemma buildEntry_message:
  assumes keys: "\<forall>l\<in>set columnLetters. columnKey file h l \<noteq> ''validationErrors''"
      and b: "buildEntry file h (harvestColumns file h) row = Inr en"
      and l: "letter \<in> set columnLetters"
      and n: "mandatoryName (headerName file h letter) = Some name"
      and s: "invoiceDataFormat name = Some sch"
      and m: "message \<in> set (safeParse sch (fileGet file (cellIndexOf letter row)))"
  shows "name @ '': '' @ message \<in> set (validationErrorsOf en)"
proof -
  from buildEntry_ok [OF keys, of row] b
  have "validationErrorsOf en = concat (map (columnMessages file h row) columnLetters)"
    by auto
  moreover have "name @ '': '' @ message \<in> set (columnMessages file h row letter)"
    using n s m by (simp add: columnMessages_def)
  ultimately show ?thesis using l by auto
qed

lemma buildEntry_value:
  assumes keys: "\<forall>l\<in>set columnLetters. columnKey file h l \<noteq> ''validationErrors''"
      and b: "buildEntry file h (harvestColumns file h) row = Inr en"
      and l: "letter \<in> set columnLetters"
      and n: "mandatoryName (headerName file h letter) = Some name"
      and o: "\<forall>other\<in>set columnLetters. other \<noteq> letter \<longrightarrow> columnKey file h other \<noteq> name"
  shows "entryGet en name = fileGet file (cellIndexOf letter row)"
proof -
  have k: "columnKey file h letter = name"
    using mandatoryName_Some [OF n] by (simp add: columnKey_def)
  then have ne: "name \<noteq> ''validationErrors''" using keys l by auto
  have u: "\<forall>l\<in>set columnLetters. columnKey file h l = name \<longrightarrow> l = letter"
    using o by auto
  show ?thesis
    using forEachE_columnBody_value [OF b [unfolded buildEntry_def] ne u] l k by simp
qed

lemma buildEntry_columnRecorded:
  assumes keys: "\<forall>l\<in>set columnLetters. columnKey file h l \<noteq> ''validationErrors''"
      and b: "buildEntry file h (harvestColumns file h) row = Inr en"
      and l: "letter \<in> set columnLetters"
  shows "columnRecorded file h row en letter"
  using buildEntry_message [OF keys b l] buildEntry_value [OF keys b l]
  by (auto simp: columnRecorded_def split: option.splits)

subsection \<open>Structure validation and the total\<close>



lemma invoiceTotal_objSet_total:
  "invoiceTotal (objSet ''Invoice Total'' v r) rates = invoiceTotal r rates"
  by (simp add: invoiceTotal_def entryGet_objSet split: option.split)

lemma mulNum_NaN: "mulNum x NaN = NaN"
  by (cases x) simp_all

section \<open>The claims\<close>

subsection \<open>C1: row admission\<close>

text \<open>
  Claim C1 says that, on a sheet accepted by structure validation, the rows with a record
  are exactly the rows whose status-column cell equals \<^verbatim>\<open>Ready\<close> together with the rows
  whose invoice-number-column cell is an 11-character string starting with \<^verbatim>\<open>INV\<close>, and
  that a row satisfying either or both conditions yields exactly one record. The filter
  that selects \<^verbatim>\<open>entriesToProcess\<close> looks at cells, not rows, and nothing removes a row
  that was selected twice: row 6 of the example sheet, which passes structure validation,
  holds \<^verbatim>\<open>Ready\<close> in \<^verbatim>\<open>E6\<close> and an invoice number in \<^verbatim>\<open>F6\<close>, is selected once for each
  cell, and receives two identical records.
\<close>

theorem row_with_both_conditions_emitted_twice:
  "validateSheetStructure exampleSheet = Inr ()
   \<and> fileGet exampleSheet ''E6'' = Cell (Str ''Ready'')
   \<and> fileGet exampleSheet ''F6'' = Cell (Str ''INV00000001'')
   \<and> rowsToProcess exampleSheet (Some CHR ''E'') (Some 5) (Some CHR ''F'') = [Some 6, Some 6]
   \<and> parseInvoicesData exampleSheet = Inr [exampleRecord, exampleRecord]"
  by code_simp

text \<open>
  The set of the selected rows is as the specification describes it. For a sheet whose
  keys are well-formed, distinct cell addresses and whose two anchors are in columns A to
  Z of the row \<open>headerRow\<close>, whenever the extractor returns records, they are the records
  assembled for \<open>rowsToProcess\<close>, in order, and the set of these rows is exactly the set of
  rows \<open>r > headerRow\<close> whose status-column cell equals \<^verbatim>\<open>Ready\<close> or whose
  invoice-number-column cell is an 11-character \<^verbatim>\<open>INV\<close> string. This says nothing on how
  often a row occurs in the list.
\<close>

lemma row_admission_below_header:
  assumes "\<forall>el\<in>set file. wellFormedKey (fst el)"
      and "distinct (map fst file)"
      and "findEntry ''Status'' file = Some (cellIndexOf statusLetter (Some headerRow), v)"
      and "findEntry ''Invoice #'' file = Some (cellIndexOf invoiceNoLetter (Some headerRow), w)"
      and "parseInvoicesData file = Inr records"
  shows "list_all2
           (\<lambda>row record.
              buildEntry file (Some headerRow) (harvestColumns file (Some headerRow)) row = Inr record)
           (rowsToProcess file (Some statusLetter) (Some headerRow) (Some invoiceNoLetter)) records
         \<and> set (rowsToProcess file (Some statusLetter) (Some headerRow) (Some invoiceNoLetter)) =
           Some ` {r. headerRow < r \<and>
                      (fileGet file (cellIndexOf statusLetter (Some r)) = Cell (Str ''Ready'')
                       \<or> invoiceNumberLike (fileGet file (cellIndexOf invoiceNoLetter (Some r))))}"
proof -
  have "forEachE (pushEntry file (Some headerRow) (harvestColumns file (Some headerRow)))
          (rowsToProcess file (Some statusLetter) (Some headerRow) (Some invoiceNoLetter)) []
        = Inr records"
    using parseInvoicesData_same_row [OF assms(3,4)] assms(5) by simp
  from forEachE_pushEntry [OF this] have
    "list_all2
       (\<lambda>row record.
          buildEntry file (Some headerRow) (harvestColumns file (Some headerRow)) row = Inr record)
       (rowsToProcess file (Some statusLetter) (Some headerRow) (Some invoiceNoLetter)) records"
    by simp
  then show ?thesis using set_rowsToProcess [OF assms(1,2)] by simp
qed

text \<open>The lemma applied to the example sheet, whose header is row 5.\<close>

lemma row_admission_below_header_example:
  "list_all (\<lambda>el. wellFormedKey (fst el)) exampleSheet
   \<and> distinct (map fst exampleSheet)
   \<and> findEntry ''Status'' exampleSheet = Some (cellIndexOf CHR ''E'' (Some 5), Str ''Status'')
   \<and> findEntry ''Invoice #'' exampleSheet = Some (cellIndexOf CHR ''F'' (Some 5), Str ''Invoice #'')
   \<and> parseInvoicesData exampleSheet = Inr [exampleRecord, exampleRecord]
   \<and> set (rowsToProcess exampleSheet (Some CHR ''E'') (Some 5) (Some CHR ''F'')) =
       Some ` {r. 5 < r \<and>
                  (fileGet exampleSheet (cellIndexOf CHR ''E'' (Some r)) = Cell (Str ''Ready'')
                   \<or> invoiceNumberLike (fileGet exampleSheet (cellIndexOf CHR ''F'' (Some r))))}"
proof -
  have h1: "\<forall>el\<in>set exampleSheet. wellFormedKey (fst el)" by code_simp
  have h2: "distinct (map fst exampleSheet)" by code_simp
  have h3: "findEntry ''Status'' exampleSheet = Some (cellIndexOf CHR ''E'' (Some 5), Str ''Status'')"
    by code_simp
  have h4: "findEntry ''Invoice #'' exampleSheet
            = Some (cellIndexOf CHR ''F'' (Some 5), Str ''Invoice #'')"
    by code_simp
  have h5: "parseInvoicesData exampleSheet = Inr [exampleRecord, exampleRecord]" by code_simp
  show ?thesis
    using row_admission_below_header [OF h1 h2 h3 h4 h5] h1 h2 h3 h4 h5
    by (simp add: list_all_iff)
qed

text \<open>
  A validated sheet whose status column reads \<^verbatim>\<open>Ready\<close> in row 3, above the header
  row 5: no record is emitted for that row.
\<close>

lemma ready_above_header_not_admitted:
  "validateSheetStructure sheetReadyAboveHeader = Inr ()
   \<and> findEntry ''Status'' sheetReadyAboveHeader = Some (''E5'', Str ''Status'')
   \<and> fileGet sheetReadyAboveHeader ''E3'' = Cell (Str ''Ready'')
   \<and> parseInvoicesData sheetReadyAboveHeader = Inr []"
  by code_simp

subsection \<open>C2: the cell to the right of a rate label\<close>

text \<open>
  Claim C2 says that the rate of a label cell is read from the cell immediately to its
  right, for every row number. \<open>getRightCellIndex\<close> keeps only the second character of
  the address, so for the label in \<^verbatim>\<open>A12\<close> the builder reads \<^verbatim>\<open>B1\<close>, not \<^verbatim>\<open>B12\<close>:
  on the sheet below the rate of USD becomes the content of \<^verbatim>\<open>B1\<close>.
\<close>

theorem two_digit_row_reads_wrong_cell:
  "getRightCellIndex ''A12'' = Inr ''B1''
   \<and> parseCurrencyRates [(''B1'', Str ''9.9''), (''A12'', Str ''USD Rate''), (''B12'', Str ''1.1'')]
       = Inr [(''USD'', Str ''9.9'')]"
  by code_simp

text \<open>Whatever follows the second character of the label's address is ignored.\<close>

lemma getRightCellIndex_second_character:
  "getRightCellIndex (c # d # rest) = getRightCellIndex [c, d]"
  by (simp add: getRightCellIndex_def charCodeAt0_def Let_def)

subsection \<open>C3: validation failures stay with their record\<close>

text \<open>
  Claim C3 says that, for every admitted row and every mandatory field whose value fails
  its schema rule, a message \<^verbatim>\<open><field>: <reason>\<close> is appended to the record's
  \<^verbatim>\<open>validationErrors\<close>, the record is still emitted with the raw value under the column
  name, and no validation failure discards a record or aborts the batch. The loop stores
  every cell of the row with \<^verbatim>\<open>entry[columnName] = cellValue\<close>, in the object that also holds
  the error list, whatever the header cell says. On the sheet below the header of column
  K is \<^verbatim>\<open>validationErrors\<close>: the status \<^verbatim>\<open>Pending\<close> in row 6 fails its rule, its message is
  appended, and the value of column K (here none) then replaces the error list, so the
  emitted record carries no message.
\<close>

theorem errors_column_overwrites_error_list:
  "fileGet sheetErrorsColumn ''K5'' = Cell (Str ''validationErrors'')
   \<and> fileGet sheetErrorsColumn ''E5'' = Cell (Str ''Status'')
   \<and> invoiceDataFormat ''Status'' = Some (ZEnum [''Ready'', ''Done''])
   \<and> safeParse (ZEnum [''Ready'', ''Done'']) (fileGet sheetErrorsColumn ''E6'') \<noteq> []
   \<and> parseInvoicesData sheetErrorsColumn =
       Inr [[(''validationErrors'', Undefined),
             (''Customer'', Cell (Str ''ACME'')), (''Cust No'' @ [CHR 39], Cell (Num (Dec 12345 0))),
             (''Project Type'', Cell (Str ''web'')), (''Quantity'', Cell (Num (Dec 2 0))),
             (''Status'', Cell (Str ''Pending'')), (''Invoice #'', Cell (Str ''INV00000001'')),
             (''Price Per Item'', Cell (Num (Dec 50 0))),
             (''Item Price Currency'', Cell (Str ''USD'')),
             (''Total Price'', Cell (Num (Dec 100 0))), (''Invoice Currency'', Cell (Str ''USD'')),
             (''undefined'', Undefined)]]"
  by code_simp

text \<open>
  When the column named \<^verbatim>\<open>validationErrors\<close> stands before the failing column and holds a
  number in the row, the list to extend is that number, spreading it throws, and the
  batch is aborted: no record is returned for the admitted row 6.
\<close>

lemma errors_column_number_aborts_batch:
  "validateSheetStructure sheetErrorsNumber = Inr ()
   \<and> fileGet sheetErrorsNumber ''A5'' = Cell (Str ''validationErrors'')
   \<and> fileGet sheetErrorsNumber ''A6'' = Cell (Num (Dec 7 0))
   \<and> rowsToProcess sheetErrorsNumber (Some CHR ''B'') (Some 5) (Some CHR ''C'') = [Some 6]
   \<and> parseInvoicesData sheetErrorsNumber = Inl TypeError"
  by code_simp

text \<open>
  Away from that collision the failures are recorded. With the two anchors in columns A
  to Z of the row \<open>headerRow\<close> and no header cell of these columns whose text is
  \<^verbatim>\<open>validationErrors\<close>, the extractor returns one record per entry of \<open>rowsToProcess\<close>, and
  each record satisfies \<open>columnRecorded\<close> for every column letter: the messages of every
  mandatory column are in its error list, and the raw value is stored under a name that
  labels a single column.
\<close>

lemma validation_failure_is_record_scoped:
  assumes "findEntry ''Status'' file = Some (cellIndexOf statusLetter (Some headerRow), v)"
      and "findEntry ''Invoice #'' file = Some (cellIndexOf invoiceNoLetter (Some headerRow), w)"
      and "\<forall>letter\<in>set columnLetters.
             toString (fileGet file (cellIndexOf letter (Some headerRow))) \<noteq> ''validationErrors''"
  shows "\<exists>records.
           parseInvoicesData file = Inr records
         \<and> list_all2
             (\<lambda>row record.
                \<forall>letter\<in>set columnLetters. columnRecorded file (Some headerRow) row record letter)
             (rowsToProcess file (Some statusLetter) (Some headerRow) (Some invoiceNoLetter))
             records"
proof -
  let ?h = "Some headerRow"
  let ?cols = "harvestColumns file ?h"
  let ?rows = "rowsToProcess file (Some statusLetter) ?h (Some invoiceNoLetter)"
  have p: "parseInvoicesData file = forEachE (pushEntry file ?h ?cols) ?rows []"
    using assms(1,2) by (rule parseInvoicesData_same_row)
  have keys: "\<forall>letter\<in>set columnLetters. columnKey file ?h letter \<noteq> ''validationErrors''"
    using assms(3) columnKey_not_errors by blast
  have "\<forall>row. \<exists>e. buildEntry file ?h ?cols row = Inr e"
    using buildEntry_ok [OF keys] by blast
  from forEachE_pushEntry_total [OF this] obtain records where
    r: "forEachE (pushEntry file ?h ?cols) ?rows [] = Inr records"
    by blast
  from forEachE_pushEntry [OF r] have
    b: "list_all2 (\<lambda>row e. buildEntry file ?h ?cols row = Inr e) ?rows records"
    by simp
  have "list_all2
          (\<lambda>row en. \<forall>letter\<in>set columnLetters. columnRecorded file ?h row en letter)
          ?rows records"
    using b
  proof (rule list_all2_mono)
    fix row en
    assume e: "buildEntry file ?h ?cols row = Inr en"
    show "\<forall>letter\<in>set columnLetters. columnRecorded file ?h row en letter"
      using buildEntry_columnRecorded [OF keys e] by blast
  qed
  with p r show ?thesis by auto
qed

text \<open>
  The lemma applied to a sheet whose customer number 123 fails the five-digit rule: the
  record is emitted, with the message and the raw value.
\<close>

lemma validation_failure_is_record_scoped_example:
  "findEntry ''Status'' sheetBadCustNo = Some (cellIndexOf CHR ''E'' (Some 5), Str ''Status'')
   \<and> findEntry ''Invoice #'' sheetBadCustNo = Some (cellIndexOf CHR ''F'' (Some 5), Str ''Invoice #'')
   \<and> list_all
         (\<lambda>letter. toString (fileGet sheetBadCustNo (cellIndexOf letter (Some 5))) \<noteq> ''validationErrors'')
         columnLetters
   \<and> (\<exists>records.
         parseInvoicesData sheetBadCustNo = Inr records
       \<and> list_all2
           (\<lambda>row record.
              \<forall>letter\<in>set columnLetters. columnRecorded sheetBadCustNo (Some 5) row record letter)
           (rowsToProcess sheetBadCustNo (Some CHR ''E'') (Some 5) (Some CHR ''F''))
           records)"
proof -
  have h1: "findEntry ''Status'' sheetBadCustNo = Some (cellIndexOf CHR ''E'' (Some 5), Str ''Status'')"
    by code_simp
  have h2: "findEntry ''Invoice #'' sheetBadCustNo
            = Some (cellIndexOf CHR ''F'' (Some 5), Str ''Invoice #'')"
    by code_simp
  have h3: "\<forall>letter\<in>set columnLetters.
              toString (fileGet sheetBadCustNo (cellIndexOf letter (Some 5))) \<noteq> ''validationErrors''"
    by code_simp
  show ?thesis
    using validation_failure_is_record_scoped [OF h1 h2 h3] h1 h2 h3
    by (simp add: list_all_iff)
qed

subsection \<open>C4: columns without a header\<close>

text \<open>
  Claim C4 says that a column letter with no value in the header row contributes nothing
  to any record. The loop over the column letters stores every cell of the row under the
  key made from its column name, and for a column without a header that key is
  \<^verbatim>\<open>undefined\<close>: on the example sheet with a cell in \<^verbatim>\<open>Z6\<close>, where column Z has no
  header, both records of row 6 carry the text of \<^verbatim>\<open>Z6\<close> under the key \<^verbatim>\<open>undefined\<close>.
\<close>

theorem headerless_column_reaches_the_record:
  "fileGet sheetStrayCell ''Z5'' = Undefined
   \<and> parseInvoicesData sheetStrayCell =
       Inr [objSet ''undefined'' (Cell (Str ''stray'')) exampleRecord,
            objSet ''undefined'' (Cell (Str ''stray'')) exampleRecord]"
  by code_simp

subsection \<open>C5: a missing mandatory field\<close>




subsection \<open>C6: anchors on different rows\<close>

text \<open>
  Claim C6: when the cell holding \<^verbatim>\<open>Status\<close> and the cell holding \<^verbatim>\<open>Invoice #\<close> lie on
  different rows, the extractor fails with the broken-table error and produces no
  records. The anchors are the first cells with these values, at the addresses of column
  \<open>statusLetter\<close>, row \<open>statusRow\<close> and of column \<open>invoiceNoLetter\<close>, row \<open>invoiceNoRow\<close>.
\<close>

theorem anchors_on_different_rows:
  assumes "findEntry ''Status'' file = Some (cellIndexOf statusLetter (Some statusRow), v)"
      and "findEntry ''Invoice #'' file = Some (cellIndexOf invoiceNoLetter (Some invoiceNoRow), w)"
      and "statusRow \<noteq> invoiceNoRow"
  shows "parseInvoicesData file = Inl (Error ''Broken table'')"
  using assms
  by (simp add: parseInvoicesData_def rowColFromString_cellIndexOf rowNeq_def)

text \<open>The theorem applied to a sheet with \<^verbatim>\<open>Status\<close> in \<^verbatim>\<open>E5\<close> and \<^verbatim>\<open>Invoice #\<close> in \<^verbatim>\<open>F4\<close>.\<close>

theorem anchors_on_different_rows_witness:
  "findEntry ''Status'' sheetBrokenLayout = Some (cellIndexOf CHR ''E'' (Some 5), Str ''Status'')
   \<and> findEntry ''Invoice #'' sheetBrokenLayout = Some (cellIndexOf CHR ''F'' (Some 4), Str ''Invoice #'')
   \<and> (5 :: int) \<noteq> 4
   \<and> parseInvoicesData sheetBrokenLayout = Inl (Error ''Broken table'')"
proof -
  have h1: "findEntry ''Status'' sheetBrokenLayout
            = Some (cellIndexOf CHR ''E'' (Some 5), Str ''Status'')"
    by code_simp
  have h2: "findEntry ''Invoice #'' sheetBrokenLayout
            = Some (cellIndexOf CHR ''F'' (Some 4), Str ''Invoice #'')"
    by code_simp
  have h3: "(5 :: int) \<noteq> 4" by simp
  show ?thesis
    using anchors_on_different_rows [OF h1 h2 h3] h1 h2 h3 by blast
qed

subsection \<open>C7: the Total Calculator is idempotent\<close>

text \<open>
  Claim C7: for every list of records and every rate table, applying the Total Calculator
  twice gives the same output as applying it once.
\<close>

theorem total_calculator_idempotent:
  "calculateTotalInvoiceCurrency (calculateTotalInvoiceCurrency records rates) rates
   = calculateTotalInvoiceCurrency records rates"
  by (simp add: calculateTotalInvoiceCurrency_def invoiceTotal_objSet_total objSet_objSet)

theorem total_calculator_idempotent_witness:
  "calculateTotalInvoiceCurrency
     (calculateTotalInvoiceCurrency [exampleRecord] [(''USD'', Str ''1.1'')]) [(''USD'', Str ''1.1'')]
   = calculateTotalInvoiceCurrency [exampleRecord] [(''USD'', Str ''1.1'')]"
  by (rule total_calculator_idempotent)

subsection \<open>C8: the invoicing period\<close>

text \<open>
  Claim C8 says that every request whose sheet date, in canonical form, differs from the
  caller's invoicing month fails with the period-mismatch error before the rate table
  and the records are built. The handler validates the structure of the sheet first, and
  a sheet that fails there ends the request with the structural error. What holds: every
  request whose \<^verbatim>\<open>A1\<close> text, in canonical form, differs from the parameter fails, with the
  error of structure validation when the sheet does not pass it and with the
  period-mismatch error otherwise, whatever the Rate Table Builder and the Record
  Extractor would do with the sheet.
\<close>

theorem period_mismatch_fails_request:
  assumes "fileGet file ''A1'' = Cell (Str dateString)"
      and "Cell (Str (parseInvoicingDate dateString)) \<noteq> invoicingMonthParameter"
  shows "handler file invoicingMonthParameter =
         (case validateSheetStructure file of
            Inl e \<Rightarrow> Inl e
          | Inr u \<Rightarrow> Inl (Error ''Invoicing month param dont match file invoicing month''))"
  using assms by (simp add: handler_def split: sum.splits)

text \<open>The theorem applied to the example sheet, dated \<^verbatim>\<open>Sep 2023\<close>, and the month \<^verbatim>\<open>2023-10\<close>.\<close>

theorem period_mismatch_fails_request_witness:
  "fileGet exampleSheet ''A1'' = Cell (Str ''Sep 2023'')
   \<and> Cell (Str (parseInvoicingDate ''Sep 2023'')) \<noteq> Cell (Str ''2023-10'')
   \<and> validateSheetStructure exampleSheet = Inr ()
   \<and> handler exampleSheet (Cell (Str ''2023-10''))
       = Inl (Error ''Invoicing month param dont match file invoicing month'')"
proof -
  have h1: "fileGet exampleSheet ''A1'' = Cell (Str ''Sep 2023'')" by code_simp
  have h2: "Cell (Str (parseInvoicingDate ''Sep 2023'')) \<noteq> Cell (Str ''2023-10'')" by code_simp
  have h3: "validateSheetStructure exampleSheet = Inr ()" by code_simp
  show ?thesis
    using period_mismatch_fails_request [OF h1 h2] h1 h2 h3 by simp
qed

text \<open>
  The claim as written fails on a sheet dated \<^verbatim>\<open>Sep 2023\<close> that has no \<^verbatim>\<open>Status\<close> cell:
  with the month \<^verbatim>\<open>2023-10\<close> the request ends with the error of the missing anchor.
\<close>

theorem structural_error_precedes_period_mismatch:
  "fileGet (sheetWithout ''Status'') ''A1'' = Cell (Str ''Sep 2023'')
   \<and> parseInvoicingDate ''Sep 2023'' = ''2023-09''
   \<and> handler (sheetWithout ''Status'') (Cell (Str ''2023-10''))
       = Inl (Error (''No '' @ [CHR 39] @ ''Status'' @ [CHR 39] @ '' cell in sheet''))"
  by code_simp

subsection \<open>C9: a falsy neighbour of a rate label\<close>

text \<open>
  Claim C9 says that a rate label whose right neighbour is present but falsy (the number
  0 or the empty string) gets the sentinel \<^verbatim>\<open>No value\<close>. The label in \<^verbatim>\<open>A12\<close> has the
  right neighbour \<^verbatim>\<open>B12\<close>, which holds 0 here; the builder reads \<^verbatim>\<open>B1\<close> instead (the
  defect of C2) and records its content as the rate.
\<close>

theorem falsy_neighbour_in_two_digit_row:
  "parseCurrencyRates [(''B1'', Str ''1.1''), (''A12'', Str ''USD Rate''), (''B12'', Num (Dec 0 0))]
     = Inr [(''USD'', Str ''1.1'')]"
  by code_simp

text \<open>
  For the cell that the builder does read, a falsy value and an absent cell both give the
  sentinel; in a row with one digit that cell is the right neighbour.
\<close>

lemma rateBody_falsy:
  assumes "getRightCellIndex k = Inr k'" and "\<not> truthy (fileGet file k')"
  shows "rateBody file (k, Str s) rates
         = Inr (objSet (atOrUndefined (splitOn CHR '' '' s) 0) (Str ''No value'') rates)"
  using assms by (auto simp: rateBody_def orNoValue_def Let_def split: jsvalue.splits)

lemma falsy_neighbour_in_one_digit_row:
  "parseCurrencyRates [(''A2'', Str ''USD Rate''), (''B2'', Num (Dec 0 0))] = Inr [(''USD'', Str ''No value'')]
   \<and> parseCurrencyRates [(''A2'', Str ''USD Rate''), (''B2'', Str [])] = Inr [(''USD'', Str ''No value'')]
   \<and> parseCurrencyRates [(''A2'', Str ''USD Rate'')] = Inr [(''USD'', Str ''No value'')]"
  by code_simp

subsection \<open>C10: a rate that is not a number\<close>

text \<open>
  Claim C10: when the \<^verbatim>\<open>Invoice Currency\<close> of a record is a key of the rate table and the
  rate found there does not parse as a number (\<open>parseFloat\<close> gives \<open>NaN\<close>, as for the
  sentinel \<^verbatim>\<open>No value\<close>), the Total Calculator writes the string \<^verbatim>\<open>NaN\<close> into
  \<^verbatim>\<open>Invoice Total\<close>.
\<close>

theorem unparseable_rate_gives_NaN:
  assumes "i < length records"
      and "objGet rates (toString (entryGet (records ! i) ''Invoice Currency'')) = Some rate"
      and "parseFloat (toString (Cell rate)) = NaN"
  shows "entryGet (calculateTotalInvoiceCurrency records rates ! i) ''Invoice Total''
         = Cell (Str ''NaN'')"
  using assms
  by (simp add: calculateTotalInvoiceCurrency_def entryGet_objSet invoiceTotal_def mulNum_NaN)

text \<open>The theorem applied to the example record and a table whose USD rate is the sentinel.\<close>

theorem unparseable_rate_gives_NaN_witness:
  "(0 :: nat) < length [exampleRecord]
   \<and> objGet [(''USD'', Str ''No value'')]
        (toString (entryGet ([exampleRecord] ! 0) ''Invoice Currency'')) = Some (Str ''No value'')
   \<and> parseFloat (toString (Cell (Str ''No value''))) = NaN
   \<and> entryGet (calculateTotalInvoiceCurrency [exampleRecord] [(''USD'', Str ''No value'')] ! 0)
        ''Invoice Total'' = Cell (Str ''NaN'')"
proof -
  have h1: "(0 :: nat) < length [exampleRecord]" by simp
  have h2: "objGet [(''USD'', Str ''No value'')]
              (toString (entryGet ([exampleRecord] ! 0) ''Invoice Currency''))
            = Some (Str ''No value'')"
    by code_simp
  have h3: "parseFloat (toString (Cell (Str ''No value''))) = NaN" by code_simp
  show ?thesis
    using unparseable_rate_gives_NaN [OF h1 h2 h3] h1 h2 h3 by blast
qed

end
